theory Spec2Isabelle
  imports Main
begin

section \<open>Text, tokens and character formats\<close>

text \<open>
  A Python \<open>str\<close> is a sequence of Unicode code points; the source's delimiter set
  contains code points beyond one byte (U+2028, U+2029, U+FDD0, U+FDD1), so text is
  modelled as a list of code points (the integers \<open>ord\<close> returns). Columns and
  lengths are Python integers, hence \<open>int\<close>.
\<close>

type_synonym ustr = "int list"

definition len :: "'a list \<Rightarrow> int" where
  "len s = int (length s)"

abbreviation LF :: int where "LF \<equiv> 10"
abbreviation TAB :: int where "TAB \<equiv> 9"
abbreviation VT :: int where "VT \<equiv> 11"
abbreviation CR :: int where "CR \<equiv> 13"
abbreviation BS :: int where "BS \<equiv> 8"
abbreviation ESC :: int where "ESC \<equiv> 27"
abbreviation SPACE :: int where "SPACE \<equiv> 32"

text \<open>\<open>_linebreaks = "\n\u2028\u2029\ufdd0\ufdd1"\<close>\<close>

definition isLinebreak :: "int \<Rightarrow> bool" where
  "isLinebreak c = (c = LF \<or> c = 8232 \<or> c = 8233 \<or> c = 64976 \<or> c = 64977)"

text \<open>
  \<open>_reSplit = re.compile("([" + _linebreaks + "\t\x1b]|\v+|\r+|\b+)")\<close>: a delimiter is
  one character of the class, or a maximal run of one of the three repeatable characters.
\<close>

definition isSingleDelim :: "int \<Rightarrow> bool" where
  "isSingleDelim c = (isLinebreak c \<or> c = TAB \<or> c = ESC)"

definition isRunDelim :: "int \<Rightarrow> bool" where
  "isRunDelim c = (c = VT \<or> c = CR \<or> c = BS)"

definition isPlain :: "int \<Rightarrow> bool" where
  "isPlain c = (if isSingleDelim c then False else if isRunDelim c then False else True)"

text \<open>
  \<open>[s for s in self._reSplit.split(text2) if s != ""]\<close>: the delimiters and the text
  between them, in order, without the empty strings \<open>re.split\<close> puts between adjacent
  delimiters.
\<close>

function reSplit :: "ustr \<Rightarrow> ustr list" where
  "reSplit [] = []"
| "reSplit (c # cs) =
     (if isSingleDelim c then [c] # reSplit cs
      else if isRunDelim c
        then (c # takeWhile (\<lambda>x. x = c) cs) # reSplit (dropWhile (\<lambda>x. x = c) cs)
      else (c # takeWhile isPlain cs) # reSplit (dropWhile isPlain cs))"
  by pat_completeness auto
termination
  by (relation "measure length") (auto simp: less_Suc_eq_le length_dropWhile_le)

subsection \<open>QTextCharFormat\<close>

text \<open>
  The properties of a \<open>QTextCharFormat\<close> that the source sets. A property that was never
  set is \<open>None\<close>; two formats are equal when their properties are. A colour is the name
  it was constructed from (\<open>QColor(name)\<close>).
\<close>

datatype weight = Bold | Light | Normal

record format =
  fontWeight :: "weight option"
  fontItalic :: "bool option"
  fontUnderline :: "bool option"
  foreground :: "string option"

definition QTextCharFormat :: format where
  "QTextCharFormat = \<lparr>fontWeight = None, fontItalic = None, fontUnderline = None,
     foreground = None\<rparr>"

text \<open>
  \<open>format.foreground().color()\<close>: the brush of a format without a foreground is the
  default brush, whose colour is black.
\<close>

definition foregroundColor :: "format \<Rightarrow> string" where
  "foregroundColor f = (case foreground f of None \<Rightarrow> ''#000000'' | Some c \<Rightarrow> c)"

text \<open>\<open>COLORS = "#657b83 #dc322f #859900 #b58900 #268bd2 #d33682 #2aa198 #eee8d5".split()\<close>\<close>

definition COLORS :: "string list" where
  "COLORS = [''#657b83'', ''#dc322f'', ''#859900'', ''#b58900'', ''#268bd2'', ''#d33682'',
     ''#2aa198'', ''#eee8d5'']"

subsection \<open>The escape pattern\<close>

text \<open>
  \<open>_reFormatPattern = re.compile(r"(\x1b\[(\d+(?:;\d+)*)m)")\<close>, used with \<open>match\<close>: the
  text has to start with the sequence. The digits are the ASCII digits; the other decimal
  digits of Unicode, which Python's \<open>\d\<close> and \<open>int\<close> accept too, are ordinary text here.
\<close>

definition isDigit :: "int \<Rightarrow> bool" where
  "isDigit c = (48 \<le> c \<and> c \<le> 57)"

text \<open>
  \<open>\d+(?:;\d+)*\<close> on a prefix: the digit groups and what follows them. A semicolon
  with no digit after it is not part of the match.
\<close>

function matchParams :: "ustr \<Rightarrow> (ustr list \<times> ustr) option" where
  "matchParams s =
     (let d = takeWhile isDigit s; r = dropWhile isDigit s in
      if d = [] then None
      else (case r of
              [] \<Rightarrow> Some ([d], r)
            | c # r' \<Rightarrow>
                if c = 59 then
                  (case matchParams r' of
                     None \<Rightarrow> Some ([d], r)
                   | Some (ds, rest) \<Rightarrow> Some (d # ds, rest))
                else Some ([d], r)))"
  by pat_completeness auto
termination
proof (relation "measure length")
  show "wf (measure length)" by simp
next
  fix s :: ustr and x xa x21 x22
  assume "xa = dropWhile isDigit s" and "xa = x21 # x22"
  then have "dropWhile isDigit s = x21 # x22" by simp
  then have "length x22 < length (dropWhile isDigit s)" by simp
  also have "\<dots> \<le> length s" by (rule length_dropWhile_le)
  finally show "(x22, s) \<in> measure length" by simp
qed

declare matchParams.simps [simp del]

text \<open>\<open>mo = self._reFormatPattern.match(text)\<close>: the groups of \<open>mo[2].split(";")\<close> and
  \<open>len(mo[1])\<close>, or no match.\<close>

definition reFormatPattern_match :: "ustr \<Rightarrow> (ustr list \<times> int) option" where
  "reFormatPattern_match text =
     (case text of
        e # b # s \<Rightarrow>
          if e = ESC \<and> b = 91 then
            (case matchParams s of
               None \<Rightarrow> None
             | Some (ds, rest) \<Rightarrow>
                 (case rest of
                    [] \<Rightarrow> None
                  | m # rest' \<Rightarrow>
                      if m = 109 then Some (ds, len text - len rest') else None))
          else None
      | _ \<Rightarrow> None)"

text \<open>\<open>int(i)\<close> for a string of ASCII digits.\<close>

definition pyInt :: "ustr \<Rightarrow> int" where
  "pyInt ds = foldl (\<lambda>a c. 10 * a + (c - 48)) 0 ds"

text \<open>The body of the loop \<open>for param in params\<close> of \<open>parseFormat\<close>.\<close>

definition applyParam :: "format \<Rightarrow> format \<Rightarrow> int \<Rightarrow> format" where
  "applyParam defaultFormat fmt param =
     (if param = 0 then defaultFormat
      else if param = 1 then fmt\<lparr>fontWeight := Some Bold\<rparr>
      else if param = 2 then fmt\<lparr>fontWeight := Some Light\<rparr>
      else if param = 3 then fmt\<lparr>fontItalic := Some True\<rparr>
      else if param = 4 then fmt\<lparr>fontUnderline := Some True\<rparr>
      else if param = 22 then fmt\<lparr>fontWeight := Some Normal\<rparr>
      else if param = 23 then fmt\<lparr>fontItalic := Some False\<rparr>
      else if param = 24 then fmt\<lparr>fontUnderline := Some False\<rparr>
      else if 30 \<le> param \<and> param \<le> 37
        then fmt\<lparr>foreground := Some (COLORS ! nat (param - 30))\<rparr>
      else if param = 39 then fmt\<lparr>foreground := Some (foregroundColor defaultFormat)\<rparr>
      else if 40 \<le> param \<and> param \<le> 47 then fmt
      else fmt)"

text \<open>
  \<open>parseFormat(text, currentFormat, defaultFormat)\<close> returns \<open>(None, None)\<close> when the
  text does not start with a sequence, and the new format with the length of the
  sequence otherwise.
\<close>

definition parseFormat :: "ustr \<Rightarrow> format \<Rightarrow> format \<Rightarrow> (format \<times> int) option" where
  "parseFormat text currentFormat defaultFormat =
     (case reFormatPattern_match text of
        None \<Rightarrow> None
      | Some (ds, matchLen) \<Rightarrow>
          Some (foldl (applyParam defaultFormat) currentFormat (map pyInt ds), matchLen))"


section \<open>The text widget: document and cursors\<close>

text \<open>
  The document is its characters, each with the format it was inserted with; a line
  feed separates two blocks (rows). A cursor is a position between characters. The shell
  owns \<open>_cursor1\<close> (start of the prompt), \<open>_cursor2\<close> (end of the prompt) and
  \<open>_lastCommandCursor\<close>; \<open>writeText\<close> may work on a copy of the cursor it is given.
  \<open>_lastCommandCursor\<close> keeps its position on insert since \<open>__init__\<close>; the copy never
  does. The cap on the number of blocks (\<open>setMaximumBlockCount\<close>) is not modelled: no row
  is dropped from the top.
\<close>

datatype cursorName = Cursor1 | Cursor2 | CursorCopy

record editor =
  doc :: "(int \<times> format) list"
  cursor1 :: nat
  cursor2 :: nat
  lastCommandCursor :: nat
  cursorCopy :: nat
  keep1 :: bool
  keep2 :: bool

definition position :: "editor \<Rightarrow> cursorName \<Rightarrow> nat" where
  "position ed c = (case c of Cursor1 \<Rightarrow> cursor1 ed | Cursor2 \<Rightarrow> cursor2 ed
     | CursorCopy \<Rightarrow> cursorCopy ed)"

definition setPosition :: "editor \<Rightarrow> cursorName \<Rightarrow> nat \<Rightarrow> editor" where
  "setPosition ed c p = (case c of Cursor1 \<Rightarrow> ed\<lparr>cursor1 := p\<rparr>
     | Cursor2 \<Rightarrow> ed\<lparr>cursor2 := p\<rparr> | CursorCopy \<Rightarrow> ed\<lparr>cursorCopy := p\<rparr>)"

definition keepPositionOnInsert :: "editor \<Rightarrow> cursorName \<Rightarrow> bool" where
  "keepPositionOnInsert ed c = (case c of Cursor1 \<Rightarrow> keep1 ed | Cursor2 \<Rightarrow> keep2 ed
     | CursorCopy \<Rightarrow> False)"

text \<open>\<open>cursor.positionInBlock()\<close>: the column, counted from the last line feed.\<close>

definition columnAt :: "(int \<times> format) list \<Rightarrow> nat \<Rightarrow> int" where
  "columnAt d p = len (takeWhile (\<lambda>x. fst x \<noteq> LF) (rev (take p d)))"

definition positionInBlock :: "editor \<Rightarrow> cursorName \<Rightarrow> int" where
  "positionInBlock ed c = columnAt (doc ed) (position ed c)"

text \<open>
  Qt moves a cursor when text is inserted before it, and leaves it when text is inserted
  after it; at the very position of the insertion the cursor moves unless it keeps its
  position on insert.
\<close>

definition afterInsert :: "nat \<Rightarrow> nat \<Rightarrow> bool \<Rightarrow> nat \<Rightarrow> nat" where
  "afterInsert p n keep q =
     (if p < q then q + n else if q = p then (if keep then q else q + n) else q)"

text \<open>\<open>cursor.insertText(s, fmt)\<close>\<close>

definition insertText :: "editor \<Rightarrow> cursorName \<Rightarrow> ustr \<Rightarrow> format \<Rightarrow> editor" where
  "insertText ed c s fmt =
     (let p = position ed c; n = length s in
      ed\<lparr>doc := take p (doc ed) @ map (\<lambda>x. (x, fmt)) s @ drop p (doc ed),
         cursor1 := afterInsert p n (keep1 ed) (cursor1 ed),
         cursor2 := afterInsert p n (keep2 ed) (cursor2 ed),
         lastCommandCursor := afterInsert p n True (lastCommandCursor ed),
         cursorCopy := afterInsert p n False (cursorCopy ed)\<rparr>)"

text \<open>\<open>cursor.insertText(s)\<close> without a format takes the format of the character before
  the cursor.\<close>

definition charFormat :: "editor \<Rightarrow> cursorName \<Rightarrow> format" where
  "charFormat ed c =
     (let p = position ed c in
      if p = 0 then QTextCharFormat
      else if length (doc ed) < p then QTextCharFormat
      else snd (doc ed ! (p - 1)))"

text \<open>Removing the characters from \<open>a\<close> up to \<open>b\<close>: a cursor inside the range or
  at its end lands on \<open>a\<close>, a cursor behind it moves left.\<close>

definition afterRemove :: "nat \<Rightarrow> nat \<Rightarrow> nat \<Rightarrow> nat" where
  "afterRemove a b q = (if b \<le> q then q - (b - a) else if a < q then a else q)"

definition removeRange :: "editor \<Rightarrow> nat \<Rightarrow> nat \<Rightarrow> editor" where
  "removeRange ed a b =
     ed\<lparr>doc := take a (doc ed) @ drop b (doc ed),
        cursor1 := afterRemove a b (cursor1 ed),
        cursor2 := afterRemove a b (cursor2 ed),
        lastCommandCursor := afterRemove a b (lastCommandCursor ed),
        cursorCopy := afterRemove a b (cursorCopy ed)\<rparr>"

text \<open>\<open>cursor.movePosition(Left, A_KEEP, n); cursor.removeSelectedText()\<close>: the cursor
  goes left as far as the document allows.\<close>

definition removeLeft :: "editor \<Rightarrow> cursorName \<Rightarrow> int \<Rightarrow> editor" where
  "removeLeft ed c n =
     (let p = position ed c; k = min (nat n) p in removeRange ed (p - k) p)"

text \<open>\<open>cursor.movePosition(Left, A_MOVE, n)\<close> and \<open>cursor.movePosition(Right, A_MOVE, n)\<close>\<close>

definition moveLeft :: "editor \<Rightarrow> cursorName \<Rightarrow> int \<Rightarrow> editor" where
  "moveLeft ed c n = (let p = position ed c in setPosition ed c (p - min (nat n) p))"

definition moveRight :: "editor \<Rightarrow> cursorName \<Rightarrow> int \<Rightarrow> editor" where
  "moveRight ed c n =
     (let p = position ed c in setPosition ed c (min (p + nat n) (length (doc ed))))"

text \<open>The rows of the document, for reading results.\<close>

fun splitRows :: "ustr \<Rightarrow> ustr \<Rightarrow> ustr list" where
  "splitRows acc [] = [acc]"
| "splitRows acc (c # cs) = (if c = LF then acc # splitRows [] cs else splitRows (acc @ [c]) cs)"

definition rows :: "editor \<Rightarrow> ustr list" where
  "rows ed = splitRows [] (map fst (doc ed))"

definition ustr_of :: "string \<Rightarrow> ustr" where
  "ustr_of s = map of_char s"


section \<open>ShellWriter\<close>

text \<open>
  An element of a line is a string, a format or the closing column; \<open>finishedLines\<close> is
  a Python list whose entries are meant to be such lines (\<open>Row\<close>), and an entry that is
  a bare string or number is \<open>Bare\<close>.
\<close>

datatype elem = Str ustr | Fmt format | Num int

datatype item = Row "elem list" | Bare elem

datatype error = AssertionError | TypeError | IndexError | UnicodeDecodeError

record writer =
  self_currentFormat :: "format option"
  self_unfinishedTail :: ustr
  self_lineShorteningActive :: bool

definition ShellWriter :: writer where
  "ShellWriter = \<lparr>self_currentFormat = None, self_unfinishedTail = [],
     self_lineShorteningActive = False\<rparr>"

text \<open>The local variables of the token loop of \<open>writeText\<close>.\<close>

record scan =
  ll :: "elem list"
  finishedLines :: "item list"
  leftLimit :: int
  posInBlock :: int
  lowestPosInFirstBlock :: int
  unfinishedTailNew :: ustr
  currentFormat :: format

text \<open>
  The backspace loop \<open>for i, v in list(enumerate(ll))[::-1]\<close>, on the reversed list:
  strings are trimmed from the last one backwards until \<open>n\<close> characters are gone.
\<close>

fun backspaceRev :: "elem list \<Rightarrow> int \<Rightarrow> int \<Rightarrow> elem list \<times> int \<times> int" where
  "backspaceRev [] n pos = ([], n, pos)"
| "backspaceRev (Str v # vs) n pos =
     (let numBackspace = min n (len v);
          v' = take (nat (len v - numBackspace)) v;
          n' = n - numBackspace;
          pos' = pos - numBackspace in
      if n' = 0 then (Str v' # vs, n', pos')
      else (case backspaceRev vs n' pos' of (vs', n'', pos'') \<Rightarrow> (Str v' # vs', n'', pos'')))"
| "backspaceRev (Fmt f # vs) n pos =
     (case backspaceRev vs n pos of (vs', n', pos') \<Rightarrow> (Fmt f # vs', n', pos'))"
| "backspaceRev (Num k # vs) n pos =
     (case backspaceRev vs n pos of (vs', n', pos') \<Rightarrow> (Num k # vs', n', pos'))"

definition backspaceLoop :: "elem list \<Rightarrow> int \<Rightarrow> int \<Rightarrow> elem list \<times> int \<times> int" where
  "backspaceLoop l n pos = (case backspaceRev (rev l) n pos of (r, n', pos') \<Rightarrow> (rev r, n', pos'))"

text \<open>The number of characters in the strings of a line.\<close>

fun textLen :: "elem list \<Rightarrow> int" where
  "textLen [] = 0"
| "textLen (Str s # es) = len s + textLen es"
| "textLen (e # es) = textLen es"

text \<open>The branch \<open>elif c == "\b"\<close> for a run \<open>s\<close> of backspaces.\<close>

definition backspaceToken :: "ustr \<Rightarrow> scan \<Rightarrow> scan" where
  "backspaceToken s st =
     (case backspaceLoop (ll st) (len s) (posInBlock st) of
        (ll', n, pos) \<Rightarrow>
          (let pos' = max (leftLimit st) (pos - n) in
           st\<lparr>ll := ll', posInBlock := pos',
              lowestPosInFirstBlock :=
                (if finishedLines st = [] \<and> pos' < lowestPosInFirstBlock st then pos'
                 else lowestPosInFirstBlock st)\<rparr>))"

text \<open>\<open>for s2 in ("m", "0m", "[0m"): if self._reFormatPattern.match(textAndNext + s2)\<close>\<close>

definition couldBecomeFormat :: "ustr \<Rightarrow> bool" where
  "couldBecomeFormat textAndNext =
     (if reFormatPattern_match (textAndNext @ [109]) \<noteq> None then True
      else if reFormatPattern_match (textAndNext @ [48, 109]) \<noteq> None then True
      else reFormatPattern_match (textAndNext @ [91, 48, 109]) \<noteq> None)"

text \<open>The branch \<open>elif c == "\x1b"\<close>; \<open>rest\<close> are the tokens after \<open>s\<close>. The source
  overwrites \<open>splitText[i + 1]\<close> when the sequence is complete, so the tokens still to
  come are returned too.\<close>

definition escapeToken :: "format \<Rightarrow> ustr \<Rightarrow> ustr list \<Rightarrow> scan \<Rightarrow> ustr list \<times> scan" where
  "escapeToken defaultFormat s rest st =
     (case rest of
        [] \<Rightarrow> ([], st\<lparr>unfinishedTailNew := s, ll := ll st @ [Str s],
                     posInBlock := posInBlock st + len s\<rparr>)
      | nxt # rest' \<Rightarrow>
          (let textAndNext = s @ nxt in
           case parseFormat textAndNext (currentFormat st) defaultFormat of
             Some (fmt, matchLen) \<Rightarrow>
               (drop (nat (matchLen - 1)) nxt # rest',
                st\<lparr>ll := ll st @ [Fmt fmt], currentFormat := fmt\<rparr>)
           | None \<Rightarrow>
               (rest,
                st\<lparr>unfinishedTailNew :=
                     (if rest' = [] \<and> couldBecomeFormat textAndNext then textAndNext
                      else unfinishedTailNew st),
                   ll := ll st @ [Str s],
                   posInBlock := posInBlock st + len s\<rparr>)))"

text \<open>One pass through the body of \<open>for i, s in enumerate(splitText)\<close>: \<open>s\<close> is the
  token, \<open>rest\<close> the tokens after it (\<open>i == lenSplit - 1\<close> is \<open>rest = []\<close>).\<close>

definition stepToken :: "format \<Rightarrow> ustr \<Rightarrow> ustr list \<Rightarrow> scan \<Rightarrow> ustr list \<times> scan" where
  "stepToken defaultFormat s rest st =
     (case s of
        [] \<Rightarrow> (rest, st)
      | c # _ \<Rightarrow>
          if isLinebreak c then
            (rest, st\<lparr>ll := [],
                     finishedLines := finishedLines st
                        @ [Row (ll st @ [Str [LF], Num (posInBlock st + 1)])],
                     leftLimit := 0, posInBlock := 0\<rparr>)
          else if c = TAB then
            (let numSpaces = 8 - posInBlock st mod 8 in
             (rest, st\<lparr>posInBlock := posInBlock st + numSpaces,
                      ll := ll st @ [Str (replicate (nat numSpaces) SPACE)]\<rparr>))
          else if c = VT then
            (rest, st\<lparr>finishedLines := finishedLines st
                        @ [Row (ll st @ [Str [LF], Num (posInBlock st + 1)])]
                        @ concat (replicate (nat (len s - 1)) [Bare (Str [LF]), Bare (Num (0 + 1))]),
                     leftLimit := 0,
                     ll := [Str (replicate (nat (posInBlock st)) SPACE)]\<rparr>)
          else if c = CR then
            (case rest of
               [] \<Rightarrow> (rest, st\<lparr>unfinishedTailNew := [c]\<rparr>)
             | nxt # _ \<Rightarrow>
                 if nxt = [LF] then (rest, st)
                 else (rest, st\<lparr>ll := [], posInBlock := leftLimit st,
                               lowestPosInFirstBlock :=
                                 (if finishedLines st = [] then leftLimit st
                                  else lowestPosInFirstBlock st)\<rparr>))
          else if c = BS then (rest, backspaceToken s st)
          else if c = ESC then escapeToken defaultFormat s rest st
          else (rest, st\<lparr>ll := ll st @ [Str s], posInBlock := posInBlock st + len s\<rparr>))"

lemma length_escapeToken: "length (fst (escapeToken d s rest st)) = length rest"
  by (auto simp: escapeToken_def Let_def split: list.splits option.splits)

lemma length_stepToken: "length (fst (stepToken d s rest st)) = length rest"
  by (auto simp: stepToken_def Let_def length_escapeToken split: list.splits)

function tokenLoop :: "format \<Rightarrow> ustr list \<Rightarrow> scan \<Rightarrow> scan" where
  "tokenLoop defaultFormat [] st = st"
| "tokenLoop defaultFormat (s # rest) st =
     tokenLoop defaultFormat (fst (stepToken defaultFormat s rest st))
       (snd (stepToken defaultFormat s rest st))"
  by pat_completeness auto
termination
  by (relation "measure (\<lambda>(d, toks, st). length toks)") (auto simp: length_stepToken case_prod_beta)

subsection \<open>Line shortening\<close>

text \<open>Python's slice \<open>s[a:b]\<close>: a negative index counts from the end, and both are
  clamped to the string.\<close>

definition sliceIndex :: "'a list \<Rightarrow> int \<Rightarrow> nat" where
  "sliceIndex s i = (if i < 0 then nat (max 0 (len s + i)) else nat (min i (len s)))"

definition pySlice :: "'a list \<Rightarrow> int \<Rightarrow> int \<Rightarrow> 'a list" where
  "pySlice s a b = take (sliceIndex s b - sliceIndex s a) (drop (sliceIndex s a) s)"

definition splitStringIntoChunks :: "ustr \<Rightarrow> int \<Rightarrow> int \<Rightarrow> ustr \<times> ustr list \<times> ustr" where
  "splitStringIntoChunks s offset chunkSize =
     (let n = len s;
          numChunks = (n - offset) div chunkSize;
          tillOffset = take (sliceIndex s offset) s;
          chunkList = map (\<lambda>i. pySlice s (offset + int i * chunkSize)
                                          (offset + (int i + 1) * chunkSize))
                          [0 ..< nat numChunks];
          remnant = drop (sliceIndex s (offset + numChunks * chunkSize)) s
      in (tillOffset, chunkList, remnant))"

abbreviation shortLineLength :: int where "shortLineLength \<equiv> 80"

text \<open>The loop \<open>for elem in line[:-1]\<close> of \<open>_shortenLines\<close>, on \<open>lineNew\<close>,
  \<open>posInBlock\<close> and \<open>finishedLinesShortened\<close>.\<close>

fun shortenElems :: "elem list \<Rightarrow> elem list \<times> int \<times> item list \<Rightarrow> elem list \<times> int \<times> item list" where
  "shortenElems [] acc = acc"
| "shortenElems (Str e # es) (lineNew, pos, out) =
     (let n = len e in
      if pos + n > shortLineLength then
        (case splitStringIntoChunks e (shortLineLength - pos) shortLineLength of
           (tillOffset, chunkList, remnant) \<Rightarrow>
             shortenElems es
               ([Str remnant], len remnant,
                out @ [Row (lineNew @ [Str tillOffset, Str [LF], Num (pos + len tillOffset + 1)])]
                    @ map (\<lambda>chunk. Row [Str chunk, Str [LF], Num (shortLineLength + 1)]) chunkList))
      else shortenElems es (lineNew @ [Str e], pos + n, out))"
| "shortenElems (e # es) (lineNew, pos, out) = shortenElems es (lineNew @ [e], pos, out)"

text \<open>\<open>line[-1]\<close> and \<open>line[:-1]\<close> for an entry of \<open>finishedLines\<close>.\<close>

definition lastOf :: "item \<Rightarrow> error + elem" where
  "lastOf line =
     (case line of
        Row es \<Rightarrow> (if es = [] then Inl IndexError else Inr (last es))
      | Bare (Str s) \<Rightarrow> (if s = [] then Inl IndexError else Inr (Str [last s]))
      | Bare (Fmt f) \<Rightarrow> Inl TypeError
      | Bare (Num k) \<Rightarrow> Inl TypeError)"

definition initOf :: "item \<Rightarrow> error + elem list" where
  "initOf line =
     (case line of
        Row es \<Rightarrow> Inr (butlast es)
      | Bare (Str s) \<Rightarrow> Inr (map (\<lambda>c. Str [c]) (butlast s))
      | Bare (Fmt f) \<Rightarrow> Inl TypeError
      | Bare (Num k) \<Rightarrow> Inl TypeError)"

text \<open>The loop \<open>for i in range(multiples)\<close> that breaks the row already in the
  document.\<close>

fun breakExisting :: "nat \<Rightarrow> cursorName \<Rightarrow> editor \<Rightarrow> editor" where
  "breakExisting 0 cursor ed = ed"
| "breakExisting (Suc k) cursor ed =
     breakExisting k cursor
       (let ed' = moveRight ed cursor shortLineLength in
        insertText ed' cursor [LF] (charFormat ed' cursor))"

text \<open>The body of \<open>for indLine, line in enumerate(finishedLines)\<close>; \<open>first\<close> is
  \<open>indLine == 0\<close> and \<open>rest\<close> are the lines after this one.\<close>

fun shortenLoop :: "cursorName \<Rightarrow> bool \<Rightarrow> item list \<Rightarrow> int \<Rightarrow> writer \<Rightarrow> editor \<Rightarrow> item list
    \<Rightarrow> (error + item list) \<times> writer \<times> editor" where
  "shortenLoop cursor first [] pos self ed out = (Inr out, self, ed)"
| "shortenLoop cursor first (line # rest) pos self ed out =
     (case lastOf line of
        Inl e \<Rightarrow> (Inl e, self, ed)
      | Inr (Str s) \<Rightarrow> (Inl TypeError, self, ed)
      | Inr (Fmt f) \<Rightarrow> (Inl TypeError, self, ed)
      | Inr (Num lastPosInBlock) \<Rightarrow>
          (let self' =
                 (if lastPosInBlock > 1024 then self\<lparr>self_lineShorteningActive := True\<rparr>
                  else if lastPosInBlock \<le> shortLineLength + 1 then
                    (if rest \<noteq> [] then self\<lparr>self_lineShorteningActive := False\<rparr> else self)
                  else self) in
           if self_lineShorteningActive self' then
             (case initOf line of
                Inl e \<Rightarrow> (Inl e, self', ed)
              | Inr es \<Rightarrow>
                  (let ed' =
                         (if first \<and> pos > shortLineLength then
                            moveRight
                              (breakExisting (nat (pos div shortLineLength)) cursor
                                 (moveLeft ed cursor pos))
                              cursor (pos mod shortLineLength)
                          else ed);
                       pos' =
                         (if first then (if pos > shortLineLength then pos mod shortLineLength else pos)
                          else 0) in
                   case shortenElems es ([], pos', out) of
                     (lineNew, pos'', out') \<Rightarrow>
                       shortenLoop cursor False rest pos'' self' ed'
                         (out' @ [Row (lineNew @ [Num pos''])])))
           else shortenLoop cursor False rest pos self' ed (out @ [line])))"

definition shortenLines :: "writer \<Rightarrow> editor \<Rightarrow> cursorName \<Rightarrow> item list
    \<Rightarrow> (error + item list) \<times> writer \<times> editor" where
  "shortenLines self ed cursor lines =
     shortenLoop cursor True lines (positionInBlock ed cursor) self ed []"

subsection \<open>Writing the lines\<close>

text \<open>The loop \<open>for elem in line[:-1]\<close> at the end of \<open>writeText\<close>: a string is
  inserted with the format in force, a format replaces it.\<close>

fun insertElems :: "cursorName \<Rightarrow> elem list \<Rightarrow> format \<Rightarrow> editor \<Rightarrow> format \<times> editor" where
  "insertElems cursor [] fmt ed = (fmt, ed)"
| "insertElems cursor (Str s # es) fmt ed = insertElems cursor es fmt (insertText ed cursor s fmt)"
| "insertElems cursor (Fmt f # es) fmt ed = insertElems cursor es f ed"
| "insertElems cursor (Num k # es) fmt ed = insertElems cursor es fmt ed"

fun insertLines :: "cursorName \<Rightarrow> item list \<Rightarrow> format \<Rightarrow> editor \<Rightarrow> error option \<times> editor" where
  "insertLines cursor [] fmt ed = (None, ed)"
| "insertLines cursor (line # rest) fmt ed =
     (case initOf line of
        Inl e \<Rightarrow> (Some e, ed)
      | Inr es \<Rightarrow>
          (case insertElems cursor es fmt ed of
             (fmt', ed') \<Rightarrow> insertLines cursor rest fmt' ed'))"

text \<open>
  \<open>writeText(self, cursor, leftLimitFirstRow, text, defaultFormat)\<close>, in the order of the
  source. First the tokens: \<open>text2\<close> is the text with an unfinished escape sequence in
  front of it, and a pending carriage return becomes a token of its own unless a line
  feed follows.
\<close>

definition splitTextOf :: "ustr \<Rightarrow> ustr \<Rightarrow> ustr list" where
  "splitTextOf tail text =
     (let text2 = (if take 1 tail = [ESC] then tail @ text else text);
          splitText = reSplit text2 in
      if tail = [CR] \<and> take 1 splitText \<noteq> [[LF]] then [CR] # splitText else splitText)"

text \<open>The column the scan starts at: \<open>posInBlock\<close> and \<open>lowestPosInFirstBlock\<close> after
  the test \<open>self._unfinishedTail.startswith("\x1b")\<close>.\<close>

definition startPos :: "ustr \<Rightarrow> int \<Rightarrow> int" where
  "startPos tail col = (if take 1 tail = [ESC] then max 0 (col - len tail) else col)"

text \<open>The format in force at the start: \<open>self._currentFormat\<close>, or the default format
  when it is still \<open>None\<close>.\<close>

definition formatOf :: "writer \<Rightarrow> format \<Rightarrow> format" where
  "formatOf self defaultFormat =
     (case self_currentFormat self of None \<Rightarrow> defaultFormat | Some f \<Rightarrow> f)"

text \<open>The token loop on the fragment, from the column \<open>col\<close> of the cursor.\<close>

definition scanText :: "writer \<Rightarrow> int \<Rightarrow> int \<Rightarrow> ustr \<Rightarrow> format \<Rightarrow> scan" where
  "scanText self col leftLimitFirstRow text defaultFormat =
     tokenLoop defaultFormat (splitTextOf (self_unfinishedTail self) text)
       \<lparr>ll = [], finishedLines = [], leftLimit = leftLimitFirstRow,
        posInBlock = startPos (self_unfinishedTail self) col,
        lowestPosInFirstBlock = startPos (self_unfinishedTail self) col,
        unfinishedTailNew = [], currentFormat = formatOf self defaultFormat\<rparr>"

text \<open>\<open>ll.append(posInBlock); finishedLines.append(ll)\<close>\<close>

definition linesOf :: "scan \<Rightarrow> item list" where
  "linesOf st = finishedLines st @ [Row (ll st @ [Num (posInBlock st)])]"

text \<open>
  The rest of \<open>writeText\<close>, from \<open>self._unfinishedTail = unfinishedTailNew\<close> on: the
  characters of earlier fragments are removed, the lines are shortened and written.
  \<open>fmt0\<close> is \<open>self._currentFormat\<close> as it was when the call began.
\<close>

definition applyScan :: "writer \<Rightarrow> editor \<Rightarrow> cursorName \<Rightarrow> scan \<Rightarrow> format
    \<Rightarrow> (error + int) \<times> writer \<times> editor" where
  "applyScan self ed cursor st fmt0 =
     (let self' = self\<lparr>self_unfinishedTail := unfinishedTailNew st\<rparr>;
          numCharsToRemove = positionInBlock ed cursor - lowestPosInFirstBlock st;
          ed1 = (if keepPositionOnInsert ed cursor
                 then setPosition ed CursorCopy (position ed cursor) else ed);
          cursor' = (if keepPositionOnInsert ed cursor then CursorCopy else cursor);
          ed2 = (if numCharsToRemove > 0 then removeLeft ed1 cursor' numCharsToRemove
                 else ed1) in
      case shortenLines self' ed2 cursor' (linesOf st) of
        (Inl e, self'', ed3) \<Rightarrow> (Inl e, self'', ed3)
      | (Inr shortened, self'', ed3) \<Rightarrow>
          (case insertLines cursor' shortened fmt0 ed3 of
             (Some e, ed4) \<Rightarrow> (Inl e, self'', ed4)
           | (None, ed4) \<Rightarrow>
               (Inr (leftLimit st),
                self''\<lparr>self_currentFormat := Some (currentFormat st)\<rparr>, ed4)))"

text \<open>
  The result of \<open>writeText\<close> is the exception raised or the new left limit, with the
  writer and the document as the call leaves them in either case.
\<close>

definition writeText :: "writer \<Rightarrow> editor \<Rightarrow> cursorName \<Rightarrow> int option \<Rightarrow> ustr \<Rightarrow> format
    \<Rightarrow> (error + int) \<times> writer \<times> editor" where
  "writeText self0 ed cursor leftLimitFirstRow0 text defaultFormat =
     (let leftLimitFirstRow =
            (case leftLimitFirstRow0 of None \<Rightarrow> positionInBlock ed cursor | Some l \<Rightarrow> l);
          self =
            (case leftLimitFirstRow0 of
               None \<Rightarrow> self0\<lparr>self_lineShorteningActive := False\<rparr>
             | Some l \<Rightarrow> self0) in
      if positionInBlock ed cursor < leftLimitFirstRow then (Inl AssertionError, self, ed)
      else
        applyScan (self\<lparr>self_currentFormat := Some (formatOf self defaultFormat)\<rparr>) ed cursor
          (scanText self (positionInBlock ed cursor) leftLimitFirstRow text defaultFormat)
          (formatOf self defaultFormat))"

section \<open>BaseShell.write\<close>

text \<open>
  \<open>text.decode("utf-8")\<close> for a \<open>bytes\<close> payload: Python's decoder with its default
  error handling (\<open>strict\<close>), which raises \<open>UnicodeDecodeError\<close> on a sequence that is not
  well-formed UTF-8 (a stray or missing continuation byte, an overlong form, a surrogate,
  a code point above U+10FFFF).
\<close>

definition isCont :: "int \<Rightarrow> bool" where
  "isCont b = (128 \<le> b \<and> b \<le> 191)"

fun utf8_decode :: "int list \<Rightarrow> ustr option" where
  "utf8_decode [] = Some []"
| "utf8_decode (b0 # bs) =
     (if b0 < 128 then map_option ((#) b0) (utf8_decode bs)
      else if 194 \<le> b0 \<and> b0 \<le> 223 then
        (case bs of
           b1 # r \<Rightarrow>
             if isCont b1
             then map_option ((#) ((b0 - 192) * 64 + (b1 - 128))) (utf8_decode r)
             else None
         | _ \<Rightarrow> None)
      else if 224 \<le> b0 \<and> b0 \<le> 239 then
        (case bs of
           b1 # b2 # r \<Rightarrow>
             if isCont b1 \<and> isCont b2 \<and> (b0 = 224 \<longrightarrow> 160 \<le> b1) \<and> (b0 = 237 \<longrightarrow> b1 \<le> 159)
             then map_option ((#) ((b0 - 224) * 4096 + (b1 - 128) * 64 + (b2 - 128)))
                    (utf8_decode r)
             else None
         | _ \<Rightarrow> None)
      else if 240 \<le> b0 \<and> b0 \<le> 244 then
        (case bs of
           b1 # b2 # b3 # r \<Rightarrow>
             if isCont b1 \<and> isCont b2 \<and> isCont b3 \<and> (b0 = 240 \<longrightarrow> 144 \<le> b1)
                \<and> (b0 = 244 \<longrightarrow> b1 \<le> 143)
             then map_option
                    ((#) ((b0 - 240) * 262144 + (b1 - 128) * 4096 + (b2 - 128) * 64 + (b3 - 128)))
                    (utf8_decode r)
             else None
         | _ \<Rightarrow> None)
      else None)"

datatype payload = PStr ustr | PBytes "int list"

text \<open>
  The state of the shell that \<open>write\<close> reads and changes: the widget with its cursors,
  \<open>_cursor1_lastStreamStart\<close> and the dictionary \<open>_shellWriters\<close>.
\<close>

record 's shell =
  editor :: editor
  cursor1_lastStreamStart :: "('s \<times> int) option"
  shellWriters :: "'s \<Rightarrow> writer option"

text \<open>The format \<open>write\<close> prepares: \<open>if color: format.setForeground(QColor(color))\<close>.\<close>

definition prepareFormat :: "string option \<Rightarrow> format" where
  "prepareFormat color =
     (case color of
        None \<Rightarrow> QTextCharFormat
      | Some c \<Rightarrow> if c = [] then QTextCharFormat else QTextCharFormat\<lparr>foreground := Some c\<rparr>)"

text \<open>The last two assignments of \<open>write\<close>, which an exception skips.\<close>

definition resetCursorStates :: "'s shell \<Rightarrow> 's shell" where
  "resetCursorStates sh = sh\<lparr>editor := (editor sh)\<lparr>keep1 := True, keep2 := True\<rparr>\<rparr>"

text \<open>\<open>self._cursor1.setPosition(self._cursor2.position(), A_KEEP);
  self._cursor1.removeSelectedText()\<close>\<close>

definition removePrompt :: "editor \<Rightarrow> editor" where
  "removePrompt ed =
     (let a = min (cursor1 ed) (cursor2 ed); b = max (cursor1 ed) (cursor2 ed) in
      removeRange (ed\<lparr>cursor1 := cursor2 ed\<rparr>) a b)"

text \<open>
  The left limit a write before the prompt starts with: the one recorded in
  \<open>_cursor1_lastStreamStart\<close> when that entry is of the same stream, else \<open>None\<close>.
\<close>

definition leftLimitOf :: "'s shell \<Rightarrow> 's \<Rightarrow> int option" where
  "leftLimitOf sh streamIdentifier =
     (case cursor1_lastStreamStart sh of
        None \<Rightarrow> None
      | Some (sid, l) \<Rightarrow> if sid = streamIdentifier then Some l else None)"

text \<open>\<open>self._shellWriters.setdefault(streamIdentifier, ShellWriter())\<close>\<close>

definition writerOf :: "'s shell \<Rightarrow> 's \<Rightarrow> writer" where
  "writerOf sh streamIdentifier =
     (case shellWriters sh streamIdentifier of None \<Rightarrow> ShellWriter | Some w \<Rightarrow> w)"

text \<open>The branches of \<open>write\<close> on \<open>prompt\<close>, for a text that is a non-empty string.\<close>

definition writeStr :: "'s shell \<Rightarrow> ustr \<Rightarrow> int \<Rightarrow> string option \<Rightarrow> 's \<Rightarrow> error option \<times> 's shell" where
  "writeStr sh text prompt color streamIdentifier =
     (let fmt = prepareFormat color; ed = editor sh in
      if prompt = 0 then
        (case writeText (writerOf sh streamIdentifier) (ed\<lparr>keep1 := False, keep2 := False\<rparr>)
                Cursor1 (leftLimitOf sh streamIdentifier) text fmt of
           (Inl e, w', ed2) \<Rightarrow>
             (Some e, sh\<lparr>editor := ed2,
                         shellWriters := (shellWriters sh)(streamIdentifier \<mapsto> w')\<rparr>)
         | (Inr newLeftLimit, w', ed2) \<Rightarrow>
             (None, resetCursorStates
                (sh\<lparr>editor := ed2,
                    cursor1_lastStreamStart := Some (streamIdentifier, newLeftLimit),
                    shellWriters := (shellWriters sh)(streamIdentifier \<mapsto> w')\<rparr>)))
      else if prompt = 1 then
        (let ed1 = ed\<lparr>lastCommandCursor := cursor2 ed, keep1 := False, keep2 := False\<rparr> in
         case writeText ShellWriter ed1 Cursor2 None text fmt of
           (Inl e, w', ed2) \<Rightarrow> (Some e, sh\<lparr>editor := ed2\<rparr>)
         | (Inr newLeftLimit, w', ed2) \<Rightarrow>
             (None, resetCursorStates
                (sh\<lparr>editor := ed2\<lparr>cursor1 := cursor2 ed2\<rparr>,
                    cursor1_lastStreamStart := None\<rparr>)))
      else if prompt = 2 \<and> text = [BS] then
        (let ed1 = removePrompt ed in
         (None, resetCursorStates (sh\<lparr>editor := ed1\<lparr>cursor2 := cursor1 ed1\<rparr>\<rparr>)))
      else if prompt = 2 then
        (let ed1 = (removePrompt ed)\<lparr>keep1 := True, keep2 := False\<rparr> in
         case writeText ShellWriter ed1 Cursor1 None text fmt of
           (Inl e, w', ed2) \<Rightarrow> (Some e, sh\<lparr>editor := ed2\<rparr>)
         | (Inr newLeftLimit, w', ed2) \<Rightarrow> (None, resetCursorStates (sh\<lparr>editor := ed2\<rparr>)))
      else (None, resetCursorStates sh))"

text \<open>
  \<open>write(self, text, prompt=0, color=None, streamIdentifier=None)\<close>: the exception that
  leaves the call, if any, and the shell as the call leaves it. (\<open>write\<close> is a keyword of
  Isar, hence the longer name.)
\<close>

definition writeShell :: "'s shell \<Rightarrow> payload \<Rightarrow> int \<Rightarrow> string option \<Rightarrow> 's \<Rightarrow> error option \<times> 's shell" where
  "writeShell sh text prompt color streamIdentifier =
     (case text of
        PStr t \<Rightarrow> if t = [] then (None, sh) else writeStr sh t prompt color streamIdentifier
      | PBytes bs \<Rightarrow>
          if bs = [] then (None, sh)
          else (case utf8_decode bs of
                  None \<Rightarrow> (Some UnicodeDecodeError, sh)
                | Some t \<Rightarrow> writeStr sh t prompt color streamIdentifier))"

text \<open>A shell as \<open>__init__\<close> leaves it, with an empty document.\<close>

definition newShell :: "'s shell" where
  "newShell =
     \<lparr>editor = \<lparr>doc = [], cursor1 = 0, cursor2 = 0, lastCommandCursor = 0, cursorCopy = 0,
                 keep1 = True, keep2 = True\<rparr>,
      cursor1_lastStreamStart = None,
      shellWriters = (\<lambda>s. None)\<rparr>"

text \<open>Several calls of \<open>write\<close> in a row; the first exception ends the sequence.\<close>

fun writeAll :: "'s shell \<Rightarrow> (payload \<times> int \<times> string option \<times> 's) list \<Rightarrow> error option \<times> 's shell" where
  "writeAll sh [] = (None, sh)"
| "writeAll sh ((text, prompt, color, sid) # calls) =
     (case writeShell sh text prompt color sid of
        (Some e, sh') \<Rightarrow> (Some e, sh')
      | (None, sh') \<Rightarrow> writeAll sh' calls)"

section \<open>Notions used to state the properties\<close>

text \<open>
  The hysteresis of line shortening as the specification words it, on the end columns of
  the lines of a batch: a line that ends beyond column 1024 switches the mode on, a line
  that ends at column 81 or before and is not the last line of the batch switches it off,
  any other line leaves it as it is.
\<close>

fun hysteresis :: "bool \<Rightarrow> int list \<Rightarrow> bool" where
  "hysteresis active [] = active"
| "hysteresis active (k # ks) =
     hysteresis (if k > 1024 then True else if k \<le> 81 \<and> ks \<noteq> [] then False else active) ks"

text \<open>The end column of a line (its last element), 0 for an entry without one.\<close>

definition endCol :: "item \<Rightarrow> int" where
  "endCol line = (case lastOf line of Inr (Num k) \<Rightarrow> k | _ \<Rightarrow> 0)"

text \<open>The lines \<open>writeText\<close> hands to \<open>_shortenLines\<close>.\<close>

definition batchOf :: "writer \<Rightarrow> editor \<Rightarrow> cursorName \<Rightarrow> int option \<Rightarrow> ustr \<Rightarrow> format \<Rightarrow> item list" where
  "batchOf self ed cursor leftLimitFirstRow text defaultFormat =
     linesOf (scanText self (positionInBlock ed cursor)
        (case leftLimitFirstRow of None \<Rightarrow> positionInBlock ed cursor | Some l \<Rightarrow> l)
        text defaultFormat)"

text \<open>The characters of the strings of a line, in order.\<close>

fun strs :: "elem list \<Rightarrow> ustr" where
  "strs [] = []"
| "strs (Str s # es) = s @ strs es"
| "strs (Fmt f # es) = strs es"
| "strs (Num k # es) = strs es"

text \<open>
  A piece cut off by line shortening, in a row that starts at column \<open>p\<close>: a line that
  ends with a line feed and the end column 81, with exactly \<open>80 - p\<close> characters before
  the line feed. \<open>pieceText\<close> is the text before the line feed.
\<close>

definition pieceOK :: "int \<Rightarrow> item \<Rightarrow> bool" where
  "pieceOK p line =
     (case line of
        Row es \<Rightarrow>
          (case rev es of
             Num k # Str nl # body \<Rightarrow> k = 81 \<and> nl = [LF] \<and> p + textLen (rev body) = 80
           | _ \<Rightarrow> False)
      | Bare e \<Rightarrow> False)"

definition pieceText :: "item \<Rightarrow> ustr" where
  "pieceText line = (case line of Row es \<Rightarrow> strs (butlast (butlast es)) | Bare e \<Rightarrow> [])"

section \<open>Properties\<close>

text \<open>
  C9. For every current format, the reset sequence \<open>ESC [ 0 m\<close> yields exactly the default
  format: \<open>parseFormat\<close> returns the default format (and the length 4 of the sequence)
  whatever the current format is, so interpreting the sequence again on the result yields
  the same format as interpreting it once.
\<close>

theorem parseFormat_reset:
  "parseFormat [ESC, 91, 48, 109] cur dflt = Some (dflt, 4)
   \<and> parseFormat [ESC, 91, 48, 109]
        (fst (the (parseFormat [ESC, 91, 48, 109] cur dflt))) dflt
      = parseFormat [ESC, 91, 48, 109] cur dflt"
proof -
  have m: "matchParams [48, 109] = Some ([[48]], [109])"
    by (simp add: matchParams.simps [of "[48, 109]"] isDigit_def)
  have r: "\<And>c. parseFormat [ESC, 91, 48, 109] c dflt = Some (dflt, 4)"
    by (simp add: parseFormat_def reFormatPattern_match_def m len_def pyInt_def applyParam_def)
  show ?thesis by (simp add: r)
qed


subsection \<open>Auxiliary facts\<close>







lemma utf8_decode_nonempty: "utf8_decode bs = Some [] \<Longrightarrow> bs = []"
  by (cases bs) (auto split: if_splits list.splits)

lemma lineShortening_reset_writeText:
  "writeText (self\<lparr>self_lineShorteningActive := b\<rparr>) ed cursor None text dflt =
   writeText (self\<lparr>self_lineShorteningActive := False\<rparr>) ed cursor
     (Some (positionInBlock ed cursor)) text dflt"
  by (simp add: writeText_def)









lemma lineShortening_reset_writeStr:
  assumes "leftLimitOf sh sid = None"
  shows "writeStr (sh\<lparr>shellWriters := (shellWriters sh)
             (sid \<mapsto> (writerOf sh sid)\<lparr>self_lineShorteningActive := b\<rparr>)\<rparr>) text 0 color sid
    = writeStr (sh\<lparr>shellWriters := (shellWriters sh)
             (sid \<mapsto> (writerOf sh sid)\<lparr>self_lineShorteningActive := False\<rparr>)\<rparr>) text 0 color sid"
proof -
  let ?ed = "(editor sh)\<lparr>keep1 := False, keep2 := False\<rparr>"
  let ?W = "writeText ((writerOf sh sid)\<lparr>self_lineShorteningActive := False\<rparr>) ?ed Cursor1
      (Some (positionInBlock ?ed Cursor1)) text (prepareFormat color)"
  have l: "leftLimitOf (sh\<lparr>shellWriters := X\<rparr>) sid = None" for X
    using assms by (simp add: leftLimitOf_def)
  have w: "writerOf (sh\<lparr>shellWriters := (shellWriters sh)(sid \<mapsto> x)\<rparr>) sid = x" for x
    by (simp add: writerOf_def)
  obtain r w' ed2 where W: "?W = (r, w', ed2)" by (metis prod_cases3)
  show ?thesis
    by (cases r) (simp_all add: writeStr_def Let_def l w lineShortening_reset_writeText W)
qed

lemma leftLimitOf_None:
  "(leftLimitOf sh sid = None) = (\<forall>l. cursor1_lastStreamStart sh \<noteq> Some (sid, l))"
  by (auto simp: leftLimitOf_def split: option.splits)

subsection \<open>Exceptions that leave the core\<close>

text \<open>
  C1. The claim is that no exception raised while a text is tokenized, shortened and
  written leaves \<open>write\<close>. On a new shell the text of two vertical tabs makes \<open>write\<close>
  raise \<open>TypeError\<close>: the branch for vertical tabs extends \<open>finishedLines\<close> with the bare
  elements \<open>"\n"\<close> and \<open>1\<close> and not with a line, and \<open>_shortenLines\<close> compares the last
  character of the string with 1024.
\<close>

theorem write_two_vertical_tabs_raises:
  "fst (writeShell (newShell :: nat shell) (PStr [VT, VT]) 0 None 0) = Some TypeError"
  by code_simp

text \<open>
  C5. The claim is that a run of \<open>N\<close> vertical tabs gives \<open>N\<close> line breaks and that the
  text goes on in the same column. For the run of two in \<open>ab\v\vc\<close> the call raises
  \<open>TypeError\<close> and the document stays empty: no line break and no text is written.
\<close>

theorem vertical_tab_run_of_two:
  "(case writeShell (newShell :: nat shell)
           (PStr (ustr_of ''ab'' @ [VT, VT] @ ustr_of ''c'')) 0 None 0 of
      (e, sh) \<Rightarrow> (e, rows (editor sh))) = (Some TypeError, [[]])"
  by code_simp

subsection \<open>Fragments\<close>

text \<open>
  C2. The claim is that the fragments of a string, written one after the other on one
  stream, leave the same rows as the string written at once. The string \<open>a\r\r\nb\<close>
  written at once leaves the rows \<open>a\<close> and \<open>b\<close>; written as \<open>a\r\<close> and \<open>\r\nb\<close> it
  leaves an empty row and \<open>b\<close>: the pending carriage return is put in front of the run
  that starts the second fragment and, followed by a carriage return and not by a line
  feed, erases the row.
\<close>

theorem fragments_differ_from_whole:
  "(case writeAll (newShell :: nat shell)
           [(PStr (ustr_of ''a'' @ [CR, CR, LF] @ ustr_of ''b''), 0, None, 0)] of
      (e, sh) \<Rightarrow> (e, rows (editor sh))) = (None, [ustr_of ''a'', ustr_of ''b''])
   \<and> (case writeAll (newShell :: nat shell)
           [(PStr (ustr_of ''a'' @ [CR]), 0, None, 0),
            (PStr ([CR, LF] @ ustr_of ''b''), 0, None, 0)] of
      (e, sh) \<Rightarrow> (e, rows (editor sh))) = (None, [[], ustr_of ''b''])"
  by code_simp

subsection \<open>Backspace\<close>





subsection \<open>Empty text and bytes\<close>

text \<open>
  C6, as the claim states it: a payload of bytes that are not UTF-8 is decoded with the
  invalid bytes replaced, and nothing is raised. The byte \<open>0xff\<close> is no UTF-8, and
  \<open>write\<close> raises \<open>UnicodeDecodeError\<close> on it.
\<close>

theorem write_invalid_bytes_raises:
  "fst (writeShell (newShell :: nat shell) (PBytes [255]) 0 None 0) = Some UnicodeDecodeError"
  by code_simp

text \<open>
  C6, amended. \<open>write\<close> with an empty text (string or bytes) returns at once and leaves
  the shell as it is. A payload of bytes is decoded as UTF-8 before anything else is done:
  when the bytes are well-formed the call is the call with the decoded string, and when
  they are not it raises \<open>UnicodeDecodeError\<close> and leaves the shell as it is.
\<close>

theorem write_empty_and_bytes:
  "writeShell sh (PStr []) prompt color sid = (None, sh)
   \<and> writeShell sh (PBytes []) prompt color sid = (None, sh)
   \<and> (\<forall>t. utf8_decode bs = Some t \<longrightarrow>
         writeShell sh (PBytes bs) prompt color sid = writeShell sh (PStr t) prompt color sid)
   \<and> (utf8_decode bs = None \<longrightarrow>
         writeShell sh (PBytes bs) prompt color sid = (Some UnicodeDecodeError, sh))"
  using utf8_decode_nonempty [of bs] by (auto simp: writeShell_def)

theorem write_empty_and_bytes_witness:
  "writeShell (newShell :: nat shell) (PBytes [195, 169]) 0 None 0
     = writeShell newShell (PStr [233]) 0 None 0
   \<and> writeShell (newShell :: nat shell) (PBytes [255]) 0 None 0
     = (Some UnicodeDecodeError, newShell)"
  using write_empty_and_bytes [of "newShell :: nat shell" 0 None 0 "[195, 169]"]
    write_empty_and_bytes [of "newShell :: nat shell" 0 None 0 "[255]"]
  by (simp add: isCont_def)


subsection \<open>Carriage return\<close>






subsection \<open>The reset of line shortening\<close>

text \<open>
  C10. A call of \<open>writeText\<close> without a left limit behaves as the call on the writer
  with the flag of line shortening cleared and the column of the cursor as left limit:
  whether shortening was active before has no effect on the call. \<open>write\<close> passes no
  left limit for a write before the prompt exactly when \<open>_cursor1_lastStreamStart\<close> is not
  an entry of the stream, and then the outcome of the write does not depend on the flag
  of the stream's writer.
\<close>

theorem lineShortening_reset:
  "writeText (self\<lparr>self_lineShorteningActive := b\<rparr>) ed cursor None text dflt
     = writeText (self\<lparr>self_lineShorteningActive := False\<rparr>) ed cursor
         (Some (positionInBlock ed cursor)) text dflt
   \<and> (leftLimitOf sh sid = None) = (\<forall>l. cursor1_lastStreamStart sh \<noteq> Some (sid, l))
   \<and> (leftLimitOf sh sid = None \<longrightarrow>
        writeStr (sh\<lparr>shellWriters := (shellWriters sh)
             (sid \<mapsto> (writerOf sh sid)\<lparr>self_lineShorteningActive := b\<rparr>)\<rparr>) frag 0 color sid
        = writeStr (sh\<lparr>shellWriters := (shellWriters sh)
             (sid \<mapsto> (writerOf sh sid)\<lparr>self_lineShorteningActive := False\<rparr>)\<rparr>) frag 0 color sid)"
proof (intro conjI impI)
  show "writeText (self\<lparr>self_lineShorteningActive := b\<rparr>) ed cursor None text dflt
     = writeText (self\<lparr>self_lineShorteningActive := False\<rparr>) ed cursor
         (Some (positionInBlock ed cursor)) text dflt"
    by (rule lineShortening_reset_writeText)
  show "(leftLimitOf sh sid = None) = (\<forall>l. cursor1_lastStreamStart sh \<noteq> Some (sid, l))"
    by (rule leftLimitOf_None)
  assume "leftLimitOf sh sid = None"
  then show "writeStr (sh\<lparr>shellWriters := (shellWriters sh)
             (sid \<mapsto> (writerOf sh sid)\<lparr>self_lineShorteningActive := b\<rparr>)\<rparr>) frag 0 color sid
        = writeStr (sh\<lparr>shellWriters := (shellWriters sh)
             (sid \<mapsto> (writerOf sh sid)\<lparr>self_lineShorteningActive := False\<rparr>)\<rparr>) frag 0 color sid"
    by (rule lineShortening_reset_writeStr)
qed

theorem lineShortening_reset_witness:
  "writeStr ((newShell :: nat shell)\<lparr>shellWriters := (shellWriters newShell)
        (0 \<mapsto> (writerOf (newShell :: nat shell) 0)\<lparr>self_lineShorteningActive := True\<rparr>)\<rparr>) [122] 0 None 0
   = writeStr ((newShell :: nat shell)\<lparr>shellWriters := (shellWriters newShell)
        (0 \<mapsto> (writerOf (newShell :: nat shell) 0)\<lparr>self_lineShorteningActive := False\<rparr>)\<rparr>) [122] 0 None 0"
proof -
  have h: "leftLimitOf (newShell :: nat shell) 0 = None"
    by (simp add: leftLimitOf_def newShell_def)
  show ?thesis
    by (rule lineShortening_reset [where sh = "newShell :: nat shell" and sid = 0 and b = True
          and frag = "[122]" and color = None, THEN conjunct2, THEN conjunct2, THEN mp, OF h])
qed

end
